theory Spec2Isabelle
  imports Main "HOL-Library.AList" "HOL-Library.Sublist"
begin

section \<open>The semantic highlighting service of the Monaco editor integration\<close>

text \<open>
  A shallow embedding of \<open>MonacoSemanticHighlightingService\<close>
  (\<open>packages/monaco/src/browser/monaco-semantic-highlighting-service.ts\<close>).
  The service keeps, per document, the highlighting ranges it has decorated and the
  decoration identifiers the editor returned for them, and it subscribes once per
  document to the editor's dispose event.
\<close>

subsection \<open>Data\<close>

text \<open>
  A \<open>Position\<close> is a line and a character offset. Both are of type \<open>number\<close> and the
  service never checks their sign, so they are integers here: a negative line is a value
  the code can be given.
\<close>

record Position =
  line :: int
  character :: int

record SemanticHighlightingRange =
  start :: Position
  endPos :: Position
  scopes :: "string list"

text \<open>\<open>Range.create(start, end)\<close> builds a plain range of two positions.\<close>

record Range =
  rangeStart :: Position
  rangeEnd :: Position

text \<open>
  Of \<open>EditorDecorationOptions\<close> the service only ever sets \<open>inlineClassName\<close>;
  the object literal \<open>{}\<close> leaves it absent.
\<close>

record EditorDecorationOptions =
  inlineClassName :: "string option"

record EditorDecoration =
  decorationRange :: Range
  options :: EditorDecorationOptions

text \<open>
  The text model of an editor; the service reads its line count only, a \<open>number\<close>
  that it compares with start lines.
\<close>

record ITextModel =
  getLineCount :: int

text \<open>
  Helper tuple with the editor's decoration identifiers and the raw highlighting ranges.
\<close>

record DecorationWithRanges =
  decorations :: "string list"
  ranges :: "SemanticHighlightingRange list"

definition EMPTY :: DecorationWithRanges where
  "EMPTY = \<lparr>decorations = [], ranges = []\<rparr>"

text \<open>
  A text editor is identified by a number; the constructor records whether it is an
  instance of \<open>MonacoEditor\<close> (the \<open>instanceof\<close> test of \<open>decorate\<close>).
\<close>

datatype TextEditor = MonacoEditor nat | OtherEditor nat

fun editorId :: "TextEditor \<Rightarrow> nat" where
  "editorId (MonacoEditor i) = i"
| "editorId (OtherEditor i) = i"

record EditorWidget =
  editor :: TextEditor

text \<open>
  The \<open>Disposable\<close> that \<open>editor.onDispose(listener)\<close> returns: the registration of
  the listener, identified by a number.
\<close>

datatype Disposable = Subscription nat

text \<open>
  A registered dispose listener. The only listener the service registers is
  \<open>() => this.deleteDecorations(key, editor)\<close>, so a listener is its registration
  number, the editor it is registered on and the key it was created for.
\<close>

record Listener =
  subscription :: nat
  onEditor :: TextEditor
  forKey :: string

text \<open>One call of \<open>editor.deltaDecorations({newDecorations, oldDecorations})\<close>.\<close>

datatype DeltaCall = DeltaDecorations TextEditor "EditorDecoration list" "string list"

text \<open>
  The collaborators whose code is not part of the service are parameters: the token
  theme's \<open>match(undefined, scope)\<close>, \<open>TokenMetadata.getClassNameFromMetadata\<close>, and
  the editor's \<open>deltaDecorations\<close>, which maps the view surface \<open>'v\<close> of an editor, the
  new decorations and the old identifiers to the new identifiers and the new surface.
\<close>

record 'v Host =
  tokenThemeMatch :: "string \<Rightarrow> nat"
  getClassNameFromMetadata :: "nat \<Rightarrow> string"
  deltaDecorations :: "TextEditor \<Rightarrow> 'v \<Rightarrow> EditorDecoration list \<Rightarrow> string list \<Rightarrow> string list \<times> 'v"

text \<open>
  The state: the two maps of the service (a JavaScript \<open>Map\<close> iterates in insertion
  order, so each is an association list), and the environment it acts on: the editor
  manager's lookup by URI, the text model and view surface of every editor, the
  registered dispose listeners, and the log of \<open>deltaDecorations\<close> calls made so far.
  A URI is represented by its string form, which is also the key of both maps.
\<close>

record 'v State =
  this_decorations :: "(string \<times> DecorationWithRanges) list"
  this_toDisposeOnEditorClose :: "(string \<times> Disposable) list"
  getByUri :: "string \<Rightarrow> EditorWidget option"
  getModel :: "nat \<Rightarrow> ITextModel"
  surface :: "nat \<Rightarrow> 'v"
  listeners :: "Listener list"
  nextSubscription :: nat
  calls :: "DeltaCall list"

subsection \<open>Merging ranges\<close>

definition mergeRanges ::
  "ITextModel \<Rightarrow> SemanticHighlightingRange list \<Rightarrow> SemanticHighlightingRange list
    \<Rightarrow> SemanticHighlightingRange list" where
  "mergeRanges model oldRanges newRanges =
     (let affectedLines = set (map (\<lambda>r. line (start r)) newRanges);
          lineCount = getLineCount model
      in filter (\<lambda>r. \<not> (line (start r) \<in> affectedLines) \<and> line (start r) < lineCount) oldRanges
           @ newRanges)"

subsection \<open>From ranges to decorations\<close>

text \<open>
  The loop of \<open>toOptions\<close> returns in its first iteration; after an empty loop the
  function returns \<open>{}\<close>.
\<close>

fun toOptions :: "'v Host \<Rightarrow> string list \<Rightarrow> EditorDecorationOptions" where
  "toOptions h [] = \<lparr>inlineClassName = None\<rparr>"
| "toOptions h (scope # rest) =
     (let metadata = tokenThemeMatch h scope;
          inlineClassName = getClassNameFromMetadata h metadata
      in \<lparr>inlineClassName = Some inlineClassName\<rparr>)"

definition toDecoration :: "'v Host \<Rightarrow> SemanticHighlightingRange \<Rightarrow> EditorDecoration" where
  "toDecoration h rng =
     (let options = toOptions h (scopes rng)
      in \<lparr>decorationRange = \<lparr>rangeStart = start rng, rangeEnd = endPos rng\<rparr>,
          options = options\<rparr>)"

subsection \<open>The editor: decorations and dispose listeners\<close>

text \<open>
  \<open>editor.deltaDecorations\<close>: the host's function runs on the surface of the editor,
  and the call is logged.
\<close>

definition editorDeltaDecorations ::
  "'v Host \<Rightarrow> TextEditor \<Rightarrow> EditorDecoration list \<Rightarrow> string list \<Rightarrow> 'v State
    \<Rightarrow> string list \<times> 'v State" where
  "editorDeltaDecorations h ed newDecorations oldDecorations s =
     (let (newState, v) = deltaDecorations h ed (surface s (editorId ed)) newDecorations oldDecorations
      in (newState,
          s\<lparr>surface := (surface s)(editorId ed := v),
            calls := calls s @ [DeltaDecorations ed newDecorations oldDecorations]\<rparr>))"

text \<open>
  Modelled from the spec: \<open>MonacoEditor.onDispose\<close> and the \<open>Disposable\<close> it returns
  are not part of the service. The spec describes them as the close-notification channel
  \<open>onViewClosed(view, callback) -> subscriptionHandle\<close>, a cancellable registration:
  registering adds the listener and returns its handle, disposing of the handle cancels
  the registration.
\<close>

definition onDispose :: "TextEditor \<Rightarrow> string \<Rightarrow> 'v State \<Rightarrow> Disposable \<times> 'v State" where
  "onDispose ed key s =
     (Subscription (nextSubscription s),
      s\<lparr>listeners := listeners s @ [\<lparr>subscription = nextSubscription s, onEditor = ed, forKey = key\<rparr>],
        nextSubscription := Suc (nextSubscription s)\<rparr>)"

fun disposeDisposable :: "Disposable \<Rightarrow> 'v State \<Rightarrow> 'v State" where
  "disposeDisposable (Subscription i) s =
     s\<lparr>listeners := filter (\<lambda>l. subscription l \<noteq> i) (listeners s)\<rparr>"

subsection \<open>The service\<close>

definition deleteDecorations :: "'v Host \<Rightarrow> string \<Rightarrow> TextEditor \<Rightarrow> 'v State \<Rightarrow> 'v State" where
  "deleteDecorations h uri ed s =
     (let s1 = (case map_of (this_decorations s) uri of
                  Some decorationWithRanges \<Rightarrow>
                    (let oldDecorations = decorations decorationWithRanges;
                         s' = snd (editorDeltaDecorations h ed [] oldDecorations s)
                     in s'\<lparr>this_decorations := AList.delete uri (this_decorations s')\<rparr>)
                | None \<Rightarrow> s);
          s2 = (case map_of (this_toDisposeOnEditorClose s1) uri of
                  Some disposable \<Rightarrow> disposeDisposable disposable s1
                | None \<Rightarrow> s1)
      in s2\<lparr>this_toDisposeOnEditorClose := AList.delete uri (this_toDisposeOnEditorClose s2)\<rparr>)"

text \<open>
  \<open>decorate\<close>, with the lookup of the editor widget read from the state. Everything
  after the lookup runs without interruption.
\<close>

definition decorate ::
  "'v Host \<Rightarrow> string \<Rightarrow> SemanticHighlightingRange list \<Rightarrow> 'v State \<Rightarrow> 'v State" where
  "decorate h uri newRanges s =
     (case getByUri s uri of
        None \<Rightarrow> s
      | Some editorWidget \<Rightarrow>
          (case editor editorWidget of
             OtherEditor _ \<Rightarrow> s
           | MonacoEditor i \<Rightarrow>
               (let key = uri;
                    ed = MonacoEditor i;
                    model = getModel s i;
                    s1 = (if map_of (this_toDisposeOnEditorClose s) key = None
                          then (let (d, s') = onDispose ed key s
                                in s'\<lparr>this_toDisposeOnEditorClose :=
                                        AList.update key d (this_toDisposeOnEditorClose s')\<rparr>)
                          else s);
                    oldState = (case map_of (this_decorations s1) key of
                                  Some st \<Rightarrow> st
                                | None \<Rightarrow> EMPTY);
                    rangesToCache = mergeRanges model (ranges oldState) newRanges;
                    newDecorations = map (toDecoration h) rangesToCache;
                    oldDecorations = decorations oldState;
                    (newState, s2) = editorDeltaDecorations h ed newDecorations oldDecorations s1
                in s2\<lparr>this_decorations :=
                        AList.update key \<lparr>decorations = newState, ranges = rangesToCache\<rparr>
                          (this_decorations s2)\<rparr>)))"

text \<open>\<open>dispose\<close> disposes of every value of \<open>toDisposeOnEditorClose\<close>, in map order.\<close>

definition dispose :: "'v State \<Rightarrow> 'v State" where
  "dispose s = fold disposeDisposable (map snd (this_toDisposeOnEditorClose s)) s"

subsection \<open>A concrete host and state\<close>

text \<open>
  Modelled from the spec: the view surface is not part of the service. The spec describes
  its decoration API as one atomic replace operation: remove all old handles, add one
  decoration per range, and return fresh handles that match the added decorations by
  position. The surface holds the applied decorations with their handles and a counter
  from which fresh handles are made.
\<close>

record SimpleSurface =
  applied :: "(string \<times> EditorDecoration) list"
  counter :: nat

definition handleName :: "nat \<Rightarrow> string" where
  "handleName n = CHR ''d'' # replicate n CHR ''i''"

definition simpleDeltaDecorations ::
  "TextEditor \<Rightarrow> SimpleSurface \<Rightarrow> EditorDecoration list \<Rightarrow> string list
    \<Rightarrow> string list \<times> SimpleSurface" where
  "simpleDeltaDecorations ed v newDecorations oldDecorations =
     (let ids = map (\<lambda>k. handleName (counter v + k)) [0..<length newDecorations]
      in (ids,
          \<lparr>applied = filter (\<lambda>p. fst p \<notin> set oldDecorations) (applied v) @ zip ids newDecorations,
           counter = counter v + length newDecorations\<rparr>))"

definition exampleHost :: "SimpleSurface Host" where
  "exampleHost =
     \<lparr>tokenThemeMatch = length,
      getClassNameFromMetadata = (\<lambda>m. ''mtk'' @ replicate m CHR ''i''),
      deltaDecorations = simpleDeltaDecorations\<rparr>"

text \<open>
  A fresh service in an environment with a Monaco editor for \<open>a.ts\<close>, an editor of
  another kind for \<open>b.txt\<close>, and no editor for any other URI.
\<close>

definition exampleState :: "SimpleSurface State" where
  "exampleState =
     \<lparr>this_decorations = [],
      this_toDisposeOnEditorClose = [],
      getByUri = (\<lambda>u. if u = ''a.ts'' then Some \<lparr>editor = MonacoEditor 0\<rparr>
                      else if u = ''b.txt'' then Some \<lparr>editor = OtherEditor 1\<rparr>
                      else None),
      getModel = (\<lambda>i. \<lparr>getLineCount = 100\<rparr>),
      surface = (\<lambda>i. \<lparr>applied = [], counter = 0\<rparr>),
      listeners = [],
      nextSubscription = 0,
      calls = []\<rparr>"

definition exampleRange :: "int \<Rightarrow> int \<Rightarrow> string \<Rightarrow> SemanticHighlightingRange" where
  "exampleRange l n scope =
     \<lparr>start = \<lparr>line = l, character = 0\<rparr>, endPos = \<lparr>line = l, character = n\<rparr>, scopes = [scope]\<rparr>"

section \<open>Properties of \<open>mergeRanges\<close>\<close>

lemma mergeRanges_append:
  "mergeRanges model oldRanges newRanges =
     filter (\<lambda>r. line (start r) \<notin> (\<lambda>n. line (start n)) ` set newRanges
                  \<and> line (start r) < getLineCount model) oldRanges
       @ newRanges"
  by (simp add: mergeRanges_def)

text \<open>
  C1. For all old ranges, new ranges and line count, the merged ranges are: the old ranges,
  in their order, whose start line is the start line of no new range and is strictly
  below the line count; followed by all new ranges, in their order.
\<close>

theorem mergeRanges_characterisation:
  "mergeRanges model oldRanges newRanges =
     filter (\<lambda>r. (\<forall>n \<in> set newRanges. line (start n) \<noteq> line (start r))
                  \<and> line (start r) < getLineCount model) oldRanges
       @ newRanges"
proof -
  have "filter (\<lambda>r. line (start r) \<notin> (\<lambda>n. line (start n)) ` set newRanges
                  \<and> line (start r) < getLineCount model) oldRanges
        = filter (\<lambda>r. (\<forall>n \<in> set newRanges. line (start n) \<noteq> line (start r))
                  \<and> line (start r) < getLineCount model) oldRanges"
    by (rule filter_cong) (auto simp: image_iff)
  then show ?thesis
    by (simp only: mergeRanges_append)
qed

theorem mergeRanges_characterisation_witness:
  "mergeRanges \<lparr>getLineCount = 5\<rparr>
     [exampleRange 2 5 ''keyword'', exampleRange 10 1 ''x'', exampleRange 3 1 ''y'']
     [exampleRange 2 3 ''string'', exampleRange 7 1 ''z'']
   = [exampleRange 3 1 ''y'', exampleRange 2 3 ''string'', exampleRange 7 1 ''z'']"
  using mergeRanges_characterisation [of "\<lparr>getLineCount = 5\<rparr>"
     "[exampleRange 2 5 ''keyword'', exampleRange 10 1 ''x'', exampleRange 3 1 ''y'']"
     "[exampleRange 2 3 ''string'', exampleRange 7 1 ''z'']"]
  by (simp add: exampleRange_def)

text \<open>
  C2. If some new range starts at line \<open>L\<close>, the merged ranges are the new ranges preceded
  by ranges kept from the old ranges, and no kept range starts at line \<open>L\<close>: per affected
  line the new ranges replace the old ones entirely.
\<close>

theorem mergeRanges_new_wins:
  assumes "n \<in> set newRanges" and "line (start n) = L"
  shows "\<exists>kept. mergeRanges model oldRanges newRanges = kept @ newRanges
           \<and> subseq kept oldRanges
           \<and> (\<forall>r \<in> set kept. line (start r) \<noteq> L)"
proof -
  let ?kept = "filter (\<lambda>r. line (start r) \<notin> (\<lambda>n. line (start n)) ` set newRanges
                  \<and> line (start r) < getLineCount model) oldRanges"
  have "mergeRanges model oldRanges newRanges = ?kept @ newRanges"
    by (rule mergeRanges_append)
  moreover have "subseq ?kept oldRanges"
    by simp
  moreover have "\<forall>r \<in> set ?kept. line (start r) \<noteq> L"
    using assms by auto
  ultimately show ?thesis
    by blast
qed

theorem mergeRanges_new_wins_witness:
  "exampleRange 2 3 ''string'' \<in> set [exampleRange 2 3 ''string'']
   \<and> line (start (exampleRange 2 3 ''string'')) = 2
   \<and> (\<exists>kept. mergeRanges \<lparr>getLineCount = 100\<rparr>
                [exampleRange 2 5 ''keyword'', exampleRange 3 1 ''y''] [exampleRange 2 3 ''string'']
              = kept @ [exampleRange 2 3 ''string'']
         \<and> subseq kept [exampleRange 2 5 ''keyword'', exampleRange 3 1 ''y'']
         \<and> (\<forall>r \<in> set kept. line (start r) \<noteq> 2))"
proof -
  have a: "exampleRange 2 3 ''string'' \<in> set [exampleRange 2 3 ''string'']"
    by simp
  have b: "line (start (exampleRange 2 3 ''string'')) = 2"
    by (simp add: exampleRange_def)
  show ?thesis
    using a b mergeRanges_new_wins [OF a b] by blast
qed

text \<open>
  C4, as stated: with a line count of 0 the merged ranges are empty. This fails when
  there is a new range: the line count filters the old ranges only.
\<close>

theorem mergeRanges_no_lines_counterexample:
  "mergeRanges \<lparr>getLineCount = 0\<rparr> [] [exampleRange 0 1 ''keyword''] \<noteq> []"
  by (simp add: mergeRanges_def)

text \<open>
  C4, amended. With a line count of 0, and old ranges that all start at a line of 0 or
  more, every old range is dropped and the merged ranges are exactly the new ranges.
  The start line is compared with the line count only, so an old range that starts at a
  negative line is outside this statement.
\<close>

theorem mergeRanges_no_lines:
  assumes "\<forall>r \<in> set oldRanges. 0 \<le> line (start r)"
  shows "mergeRanges \<lparr>getLineCount = 0\<rparr> oldRanges newRanges = newRanges"
proof -
  have "filter (\<lambda>r. line (start r) \<notin> (\<lambda>n. line (start n)) ` set newRanges
                  \<and> line (start r) < 0) oldRanges = []"
    using assms by (auto simp: filter_empty_conv)
  then show ?thesis
    by (simp add: mergeRanges_append)
qed

theorem mergeRanges_no_lines_witness:
  "0 \<le> line (start (exampleRange 2 5 ''keyword''))
   \<and> 0 \<le> line (start (exampleRange 0 1 ''x''))
   \<and> mergeRanges \<lparr>getLineCount = 0\<rparr> [exampleRange 2 5 ''keyword'', exampleRange 0 1 ''x'']
        [exampleRange 7 1 ''z''] = [exampleRange 7 1 ''z'']"
proof -
  have a: "0 \<le> line (start (exampleRange 2 5 ''keyword''))"
    and b: "0 \<le> line (start (exampleRange 0 1 ''x''))"
    by (simp_all add: exampleRange_def)
  have c: "\<forall>r \<in> set [exampleRange 2 5 ''keyword'', exampleRange 0 1 ''x'']. 0 \<le> line (start r)"
    using a b by simp
  show ?thesis
    using a b mergeRanges_no_lines [OF c, of "[exampleRange 7 1 ''z'']"] by simp
qed


text \<open>
  C10. Every new range appears unchanged in the merged ranges, whatever its start line:
  the merged ranges end with the new ranges, so the line count never removes one.
\<close>

theorem mergeRanges_keeps_new:
  "drop (length (mergeRanges model oldRanges newRanges) - length newRanges)
     (mergeRanges model oldRanges newRanges) = newRanges
   \<and> subseq newRanges (mergeRanges model oldRanges newRanges)"
proof
  show "drop (length (mergeRanges model oldRanges newRanges) - length newRanges)
     (mergeRanges model oldRanges newRanges) = newRanges"
    by (simp add: mergeRanges_append)
  have "subseq newRanges newRanges"
    by simp
  then show "subseq newRanges (mergeRanges model oldRanges newRanges)"
    unfolding mergeRanges_append by (rule list_emb_append2)
qed

section \<open>Properties of \<open>toOptions\<close>\<close>

text \<open>
  C8. The options of the decoration of a range are those of the first entry of its scopes
  alone: the class name the theme gives for that scope. With no scopes the options are
  empty.
\<close>

theorem toOptions_first_scope:
  "options (toDecoration h r) = toOptions h (take 1 (scopes r))
   \<and> toOptions h [] = \<lparr>inlineClassName = None\<rparr>
   \<and> toOptions h (scope # rest) =
       \<lparr>inlineClassName = Some (getClassNameFromMetadata h (tokenThemeMatch h scope))\<rparr>"
  by (cases "scopes r") (simp_all add: toDecoration_def)

section \<open>Properties of the service\<close>

subsection \<open>What each operation changes\<close>

lemma editorDeltaDecorations_fields:
  "this_decorations (snd (editorDeltaDecorations h ed new old s)) = this_decorations s"
  "this_toDisposeOnEditorClose (snd (editorDeltaDecorations h ed new old s)) = this_toDisposeOnEditorClose s"
  "getByUri (snd (editorDeltaDecorations h ed new old s)) = getByUri s"
  "listeners (snd (editorDeltaDecorations h ed new old s)) = listeners s"
  "calls (snd (editorDeltaDecorations h ed new old s)) = calls s @ [DeltaDecorations ed new old]"
  "fst (editorDeltaDecorations h ed new old s) = fst (deltaDecorations h ed (surface s (editorId ed)) new old)"
  by (simp_all add: editorDeltaDecorations_def split: prod.splits)

lemma disposeDisposable_fields:
  "this_decorations (disposeDisposable d s) = this_decorations s"
  "this_toDisposeOnEditorClose (disposeDisposable d s) = this_toDisposeOnEditorClose s"
  "getByUri (disposeDisposable d s) = getByUri s"
  "getModel (disposeDisposable d s) = getModel s"
  "surface (disposeDisposable d s) = surface s"
  "nextSubscription (disposeDisposable d s) = nextSubscription s"
  "calls (disposeDisposable d s) = calls s"
  by (cases d; simp)+

lemma decorate_monaco:
  assumes "getByUri s uri = Some w" and "editor w = MonacoEditor i"
  shows "decorate h uri newRanges s =
     (let s1 = (if map_of (this_toDisposeOnEditorClose s) uri = None
                then (snd (onDispose (MonacoEditor i) uri s))
                       \<lparr>this_toDisposeOnEditorClose :=
                          AList.update uri (fst (onDispose (MonacoEditor i) uri s))
                            (this_toDisposeOnEditorClose s)\<rparr>
                else s);
          oldState = (case map_of (this_decorations s) uri of Some st \<Rightarrow> st | None \<Rightarrow> EMPTY);
          rangesToCache = mergeRanges (getModel s i) (ranges oldState) newRanges;
          r = editorDeltaDecorations h (MonacoEditor i) (map (toDecoration h) rangesToCache)
                (decorations oldState) s1
      in (snd r)\<lparr>this_decorations :=
                  AList.update uri \<lparr>decorations = fst r, ranges = rangesToCache\<rparr>
                    (this_decorations s)\<rparr>)"
  using assms
  by (simp add: decorate_def Let_def onDispose_def split_beta editorDeltaDecorations_fields)

lemma decorate_getByUri: "getByUri (decorate h uri newRanges s) = getByUri s"
  by (simp add: decorate_def Let_def onDispose_def split_beta editorDeltaDecorations_fields
      split: option.splits TextEditor.splits)

lemma decorate_monaco_cached:
  assumes "getByUri s uri = Some w" and "editor w = MonacoEditor i"
  shows "map_of (this_decorations (decorate h uri newRanges s)) uri =
     (let oldState = (case map_of (this_decorations s) uri of Some st \<Rightarrow> st | None \<Rightarrow> EMPTY);
          rangesToCache = mergeRanges (getModel s i) (ranges oldState) newRanges
      in Some \<lparr>decorations = fst (deltaDecorations h (MonacoEditor i) (surface s i)
                                 (map (toDecoration h) rangesToCache) (decorations oldState)),
               ranges = rangesToCache\<rparr>)"
  by (simp add: decorate_monaco [OF assms] Let_def onDispose_def editorDeltaDecorations_fields
      AList.update_conv')

lemma decorate_monaco_first:
  assumes "getByUri s uri = Some w" and "editor w = MonacoEditor i"
    and "map_of (this_toDisposeOnEditorClose s) uri = None"
  shows "this_toDisposeOnEditorClose (decorate h uri newRanges s) =
           AList.update uri (Subscription (nextSubscription s)) (this_toDisposeOnEditorClose s)"
    and "listeners (decorate h uri newRanges s) =
           listeners s @ [\<lparr>subscription = nextSubscription s, onEditor = MonacoEditor i, forKey = uri\<rparr>]"
  using assms(3)
  by (simp_all add: decorate_monaco [OF assms(1,2)] Let_def onDispose_def editorDeltaDecorations_fields)

lemma decorate_monaco_again:
  assumes "getByUri s uri = Some w" and "editor w = MonacoEditor i"
    and "map_of (this_toDisposeOnEditorClose s) uri = Some d"
  shows "this_toDisposeOnEditorClose (decorate h uri newRanges s) = this_toDisposeOnEditorClose s"
    and "listeners (decorate h uri newRanges s) = listeners s"
  using assms(3)
  by (simp_all add: decorate_monaco [OF assms(1,2)] Let_def editorDeltaDecorations_fields)

lemma deleteDecorations_tracked:
  assumes "map_of (this_decorations s) uri = Some e"
  shows "calls (deleteDecorations h uri ed s) = calls s @ [DeltaDecorations ed [] (decorations e)]"
    and "map_of (this_decorations (deleteDecorations h uri ed s)) uri = None"
    and "map_of (this_toDisposeOnEditorClose (deleteDecorations h uri ed s)) uri = None"
  using assms
  by (simp_all add: deleteDecorations_def Let_def editorDeltaDecorations_fields
      disposeDisposable_fields AList.delete_conv' split: option.splits)

lemma deleteDecorations_cancels:
  assumes "map_of (this_toDisposeOnEditorClose s) uri = Some (Subscription d)"
  shows "d \<notin> subscription ` set (listeners (deleteDecorations h uri ed s))"
  using assms
  by (auto simp add: deleteDecorations_def Let_def editorDeltaDecorations_fields
      split: option.splits)

lemma deleteDecorations_absent:
  assumes "map_of (this_decorations s) uri = None"
    and "map_of (this_toDisposeOnEditorClose s) uri = None"
  shows "deleteDecorations h uri ed s = s"
proof -
  have "AList.delete uri (this_toDisposeOnEditorClose s) = this_toDisposeOnEditorClose s"
    using assms(2) by (simp add: map_of_eq_None_iff)
  then show ?thesis
    using assms by (simp add: deleteDecorations_def)
qed

lemma fold_disposeDisposable_fields:
  "this_decorations (fold disposeDisposable ds s) = this_decorations s"
  "this_toDisposeOnEditorClose (fold disposeDisposable ds s) = this_toDisposeOnEditorClose s"
  "surface (fold disposeDisposable ds s) = surface s"
  "calls (fold disposeDisposable ds s) = calls s"
  by (induction ds arbitrary: s; simp add: disposeDisposable_fields)+

lemma fold_disposeDisposable_listeners:
  "listeners (fold disposeDisposable ds s) =
     filter (\<lambda>l. Subscription (subscription l) \<notin> set ds) (listeners s)"
proof (induction ds arbitrary: s)
  case Nil
  show ?case by simp
next
  case (Cons d ds)
  obtain i where d: "d = Subscription i"
    by (cases d)
  have "listeners (fold disposeDisposable ds (disposeDisposable d s)) =
      filter (\<lambda>l. Subscription (subscription l) \<notin> set ds) (listeners (disposeDisposable d s))"
    by (rule Cons.IH)
  also have "\<dots> = filter (\<lambda>l. Subscription (subscription l) \<notin> set (d # ds)) (listeners s)"
    by (auto simp: d intro: filter_cong)
  finally show ?case
    by simp
qed

lemma simpleDeltaDecorations_length:
  "length (fst (simpleDeltaDecorations ed v new old)) = length new"
  by (simp add: simpleDeltaDecorations_def Let_def)

subsection \<open>Updates without a Monaco editor\<close>

text \<open>
  C9. When the editor manager has no widget for the URI, or the widget's editor is not a
  Monaco editor, \<open>decorate\<close> returns the state it was given: the decorations map, the map
  of subscriptions, the view surfaces and the log of \<open>deltaDecorations\<close> calls are all
  unchanged, so no call was made.
\<close>

theorem decorate_without_monaco_editor:
  assumes "getByUri s uri = None \<or> (\<exists>w i. getByUri s uri = Some w \<and> editor w = OtherEditor i)"
  shows "decorate h uri newRanges s = s"
  using assms by (auto simp: decorate_def)

theorem decorate_without_monaco_editor_witness:
  "(getByUri exampleState ''b.txt'' = None
     \<or> (\<exists>w i. getByUri exampleState ''b.txt'' = Some w \<and> editor w = OtherEditor i))
   \<and> decorate exampleHost ''b.txt'' [exampleRange 2 5 ''keyword''] exampleState = exampleState
   \<and> (getByUri exampleState ''c.md'' = None
     \<or> (\<exists>w i. getByUri exampleState ''c.md'' = Some w \<and> editor w = OtherEditor i))
   \<and> decorate exampleHost ''c.md'' [exampleRange 2 5 ''keyword''] exampleState = exampleState"
proof -
  have a: "getByUri exampleState ''b.txt'' = None
     \<or> (\<exists>w i. getByUri exampleState ''b.txt'' = Some w \<and> editor w = OtherEditor i)"
    by (simp add: exampleState_def)
  have b: "getByUri exampleState ''c.md'' = None
     \<or> (\<exists>w i. getByUri exampleState ''c.md'' = Some w \<and> editor w = OtherEditor i)"
    by (simp add: exampleState_def)
  show ?thesis
    using a b decorate_without_monaco_editor [OF a] decorate_without_monaco_editor [OF b]
    by simp
qed

subsection \<open>One identifier per cached range\<close>

text \<open>
  C5. Assume \<open>deltaDecorations\<close> returns one identifier per new decoration. After
  \<open>decorate\<close> has run for a URI with a Monaco editor, the entry cached for the URI has as
  many decoration identifiers as ranges.
\<close>

theorem decorate_handle_parity:
  assumes "\<forall>ed v new old. length (fst (deltaDecorations h ed v new old)) = length new"
    and "getByUri s uri = Some w" and "editor w = MonacoEditor i"
  shows "\<exists>e. map_of (this_decorations (decorate h uri newRanges s)) uri = Some e
           \<and> length (decorations e) = length (ranges e)"
  using assms(1) by (simp add: decorate_monaco_cached [OF assms(2,3)] Let_def)

theorem decorate_handle_parity_witness:
  "(\<forall>ed v new old. length (fst (deltaDecorations exampleHost ed v new old)) = length new)
   \<and> getByUri exampleState ''a.ts'' = Some \<lparr>editor = MonacoEditor 0\<rparr>
   \<and> editor \<lparr>editor = MonacoEditor 0\<rparr> = MonacoEditor 0
   \<and> (\<exists>e. map_of (this_decorations
                (decorate exampleHost ''a.ts'' [exampleRange 2 5 ''keyword'', exampleRange 9 4 ''comment'']
                   exampleState)) ''a.ts'' = Some e
         \<and> length (decorations e) = length (ranges e))"
proof -
  have a: "\<forall>ed v new old. length (fst (deltaDecorations exampleHost ed v new old)) = length new"
    by (simp add: exampleHost_def simpleDeltaDecorations_length)
  have b: "getByUri exampleState ''a.ts'' = Some \<lparr>editor = MonacoEditor 0\<rparr>"
    by (simp add: exampleState_def)
  have c: "editor \<lparr>editor = MonacoEditor 0\<rparr> = MonacoEditor 0"
    by simp
  show ?thesis
    using a b c decorate_handle_parity [OF a b c] by blast
qed

subsection \<open>Closing an editor\<close>

text \<open>
  C6. Take a document with a Monaco editor and no subscription yet, update it twice, then
  run the registered dispose listener, \<open>deleteDecorations\<close> for the key and the editor,
  twice. The updates register exactly one listener for the key, on that editor. The first
  run makes exactly one \<open>deltaDecorations\<close> call, with no new decorations and the cached
  identifiers as old ones; it removes the entry from both maps and cancels the
  subscription, so a second notification finds no listener. The second run changes
  nothing: no call, no change to the maps.
\<close>

theorem lifecycle_exactly_once:
  assumes "getByUri s uri = Some w" and "editor w = MonacoEditor i"
    and "map_of (this_toDisposeOnEditorClose s) uri = None"
  shows "let s2 = decorate h uri ranges2 (decorate h uri ranges1 s);
             s3 = deleteDecorations h uri (MonacoEditor i) s2;
             s4 = deleteDecorations h uri (MonacoEditor i) s3
         in filter (\<lambda>l. forKey l = uri) (listeners s2) =
              filter (\<lambda>l. forKey l = uri) (listeners s)
                @ [\<lparr>subscription = nextSubscription s, onEditor = MonacoEditor i, forKey = uri\<rparr>]
          \<and> map_of (this_toDisposeOnEditorClose s2) uri = Some (Subscription (nextSubscription s))
          \<and> (\<exists>e. map_of (this_decorations s2) uri = Some e
                 \<and> calls s3 = calls s2 @ [DeltaDecorations (MonacoEditor i) [] (decorations e)])
          \<and> map_of (this_decorations s3) uri = None
          \<and> map_of (this_toDisposeOnEditorClose s3) uri = None
          \<and> nextSubscription s \<notin> subscription ` set (listeners s3)
          \<and> s4 = s3"
proof -
  define s1 where "s1 = decorate h uri ranges1 s"
  define s2 where "s2 = decorate h uri ranges2 s1"
  define s3 where "s3 = deleteDecorations h uri (MonacoEditor i) s2"
  have w1: "getByUri s1 uri = Some w"
    using assms(1) by (simp add: s1_def decorate_getByUri)
  have d1: "map_of (this_toDisposeOnEditorClose s1) uri = Some (Subscription (nextSubscription s))"
    by (simp add: s1_def decorate_monaco_first [OF assms] AList.update_conv')
  have l1: "listeners s1 =
      listeners s @ [\<lparr>subscription = nextSubscription s, onEditor = MonacoEditor i, forKey = uri\<rparr>]"
    by (simp add: s1_def decorate_monaco_first [OF assms])
  have d2: "map_of (this_toDisposeOnEditorClose s2) uri = Some (Subscription (nextSubscription s))"
    using d1 by (simp add: s2_def decorate_monaco_again [OF w1 assms(2) d1])
  have l2: "listeners s2 = listeners s1"
    by (simp add: s2_def decorate_monaco_again [OF w1 assms(2) d1])
  obtain e where e: "map_of (this_decorations s2) uri = Some e"
    by (simp add: s2_def decorate_monaco_cached [OF w1 assms(2)] Let_def)
  have c3: "calls s3 = calls s2 @ [DeltaDecorations (MonacoEditor i) [] (decorations e)]"
    and n3: "map_of (this_decorations s3) uri = None"
    and t3: "map_of (this_toDisposeOnEditorClose s3) uri = None"
    unfolding s3_def by (rule deleteDecorations_tracked [OF e])+
  have x3: "nextSubscription s \<notin> subscription ` set (listeners s3)"
    unfolding s3_def by (rule deleteDecorations_cancels [OF d2])
  have s4: "deleteDecorations h uri (MonacoEditor i) s3 = s3"
    by (rule deleteDecorations_absent [OF n3 t3])
  have "filter (\<lambda>l. forKey l = uri) (listeners s2) =
          filter (\<lambda>l. forKey l = uri) (listeners s)
            @ [\<lparr>subscription = nextSubscription s, onEditor = MonacoEditor i, forKey = uri\<rparr>]"
    by (simp add: l2 l1)
  with d2 e c3 n3 t3 x3 s4 show ?thesis
    unfolding Let_def s3_def [symmetric] s2_def [symmetric] s1_def [symmetric] by blast
qed

theorem lifecycle_exactly_once_witness:
  "getByUri exampleState ''a.ts'' = Some \<lparr>editor = MonacoEditor 0\<rparr>
   \<and> editor \<lparr>editor = MonacoEditor 0\<rparr> = MonacoEditor 0
   \<and> map_of (this_toDisposeOnEditorClose exampleState) ''a.ts'' = None
   \<and> (let s2 = decorate exampleHost ''a.ts'' [exampleRange 2 3 ''string'']
                  (decorate exampleHost ''a.ts'' [exampleRange 2 5 ''keyword''] exampleState);
           s3 = deleteDecorations exampleHost ''a.ts'' (MonacoEditor 0) s2;
           s4 = deleteDecorations exampleHost ''a.ts'' (MonacoEditor 0) s3
       in (\<exists>e. map_of (this_decorations s2) ''a.ts'' = Some e
                \<and> calls s3 = calls s2 @ [DeltaDecorations (MonacoEditor 0) [] (decorations e)])
          \<and> map_of (this_decorations s3) ''a.ts'' = None
          \<and> map_of (this_toDisposeOnEditorClose s3) ''a.ts'' = None
          \<and> s4 = s3)"
proof -
  have a: "getByUri exampleState ''a.ts'' = Some \<lparr>editor = MonacoEditor 0\<rparr>"
    by (simp add: exampleState_def)
  have b: "editor \<lparr>editor = MonacoEditor 0\<rparr> = MonacoEditor 0"
    by simp
  have c: "map_of (this_toDisposeOnEditorClose exampleState) ''a.ts'' = None"
    by (simp add: exampleState_def)
  show ?thesis
    using a b c
      lifecycle_exactly_once [OF a b c, of exampleHost "[exampleRange 2 3 ''string'']"
        "[exampleRange 2 5 ''keyword'']"]
    by (simp add: Let_def)
qed

subsection \<open>Disposing of the service\<close>

text \<open>
  C3, as stated: \<open>dispose\<close> leaves the cache empty. This fails: after one update of a
  document with a Monaco editor, the decorations map still holds the entry after
  \<open>dispose\<close>.
\<close>

theorem dispose_cancels_only_counterexample:
  "this_decorations (dispose (decorate exampleHost ''a.ts'' [exampleRange 2 5 ''keyword''] exampleState)) \<noteq> []"
proof -
  have b: "getByUri exampleState ''a.ts'' = Some \<lparr>editor = MonacoEditor 0\<rparr>"
    by (simp add: exampleState_def)
  show ?thesis
    by (simp add: dispose_def fold_disposeDisposable_fields decorate_monaco [OF b] Let_def)
qed

text \<open>
  C3, amended. \<open>dispose\<close> cancels the dispose subscription of every tracked document
  and does nothing else: the listeners that remain are those whose subscription is not a
  value of the subscription map, both maps keep all their entries, and no
  \<open>deltaDecorations\<close> call is made, so the view surfaces are unchanged.
\<close>

theorem dispose_cancels_only:
  "this_decorations (dispose s) = this_decorations s
   \<and> this_toDisposeOnEditorClose (dispose s) = this_toDisposeOnEditorClose s
   \<and> calls (dispose s) = calls s
   \<and> surface (dispose s) = surface s
   \<and> listeners (dispose s) =
       filter (\<lambda>l. Subscription (subscription l) \<notin> snd ` set (this_toDisposeOnEditorClose s))
         (listeners s)"
  by (simp add: dispose_def fold_disposeDisposable_fields fold_disposeDisposable_listeners)

end
